theory Spec2Isabelle
  imports Main "HOL-Library.AList"
begin

section \<open>Exceptions (kite\_wrapper/exceptions.py)\<close>

text \<open>
  The wrapper's exception classes: the base class \<open>KiteException\<close> and its seven
  subclasses. An exception object carries a message and an optional code.
\<close>

datatype kind =
    KiteException
  | GeneralException
  | TokenException
  | PermissionException
  | OrderException
  | InputException
  | DataException
  | NetworkException

text \<open>
  Values that come out of a parsed JSON body. A message handed to an exception class is
  whatever Python object the body held, so messages are JSON values; a Python string is
  \<open>JStr\<close>. Numbers are taken as integers: the code only ever tests them for zero.
\<close>

datatype json =
    JNull
  | JBool bool
  | JNum int
  | JStr string
  | JArr "json list"
  | JObj "(string \<times> json) list"

text \<open>
  What a call can raise: one of the wrapper's exceptions, or an exception of Python or of
  its library that the code does not catch. These are \<open>TypeError\<close> (an unhashable key
  handed to a dict look-up, a value that is not a string handed to \<open>configparser\<close>),
  \<open>ValueError\<close> (a value with a stray \<open>%\<close> handed to \<open>configparser\<close>) and, as
  \<open>ConfigError\<close>, whatever \<open>configparser\<close> raises while it reads a file or a value
  (\<open>MissingSectionHeaderError\<close>, \<open>ParsingError\<close>, \<open>DuplicateSectionError\<close>,
  \<open>InterpolationError\<close>, a decoding error). None of them is a \<open>KiteException\<close> and none
  has a \<open>code\<close> attribute.
\<close>

datatype error =
    Kite (ekind: kind) (emessage: json) (ecode: "int option")
  | TypeError
  | ValueError
  | ConfigError

text \<open>Python truthiness of an optional string: \<open>None\<close> and \<open>""\<close> are falsy.\<close>

fun truthy_str :: "string option \<Rightarrow> bool" where
  "truthy_str None = False"
| "truthy_str (Some s) = (s \<noteq> [])"

section \<open>The environment and the file system\<close>

text \<open>
  \<open>os.environ\<close> is a map from names to strings. A file holds what \<open>configparser\<close> makes of
  its text, either a document (the \<open>DEFAULT\<close> section and the named sections, in file
  order, with option names in lower case and values as written) or a refusal, and the two
  permissions the code depends on. \<open>os.path.exists\<close> is membership in the domain of the
  file system. Strings are ASCII text.
\<close>

type_synonym environ = "string \<rightharpoonup> string"

type_synonym ini_section = "(string \<times> string) list"

record ini =
  default_section :: ini_section
  sections :: "(string \<times> ini_section) list"

datatype parse_result =
    Parsed ini
  | Rejected

record config_file =
  content :: parse_result
  readable :: bool
  writable :: bool

type_synonym filesystem = "string \<rightharpoonup> config_file"

definition empty_ini :: ini where
  "empty_ini = \<lparr>default_section = [], sections = []\<rparr>"

text \<open>
  \<open>parser.read(path)\<close>: a file that cannot be opened is skipped silently; a file that is
  opened and refused raises.
\<close>

definition parser_read :: "filesystem \<Rightarrow> string \<Rightarrow> error + ini" where
  "parser_read fs p =
     (case fs p of
        None \<Rightarrow> Inr empty_ini
      | Some f \<Rightarrow>
          if readable f
          then (case content f of Parsed d \<Rightarrow> Inr d | Rejected \<Rightarrow> Inl ConfigError)
          else Inr empty_ini)"

text \<open>\<open>name in parser\<close>.\<close>

definition in_parser :: "string \<Rightarrow> ini \<Rightarrow> bool" where
  "in_parser name p = (name = ''DEFAULT'' \<or> name \<in> set (map fst (sections p)))"

subsection \<open>Interpolation of values (configparser.BasicInterpolation)\<close>

text \<open>\<open>optionxform\<close>, which is \<open>str.lower\<close>.\<close>

definition lower_char :: "char \<Rightarrow> char" where
  "lower_char c =
     (case map_of (zip ''ABCDEFGHIJKLMNOPQRSTUVWXYZ'' ''abcdefghijklmnopqrstuvwxyz'') c of
        None \<Rightarrow> c
      | Some l \<Rightarrow> l)"

definition str_lower :: "string \<Rightarrow> string" where
  "str_lower s = map lower_char s"

text \<open>
  A match of the pattern \<open>%\(([^)]+)\)s\<close>, given what follows the opening \<open>%(\<close>: the name
  (the characters before the first closing parenthesis, at least one) and what follows
  the closing \<open>)s\<close>.
\<close>

definition key_match :: "string \<Rightarrow> (string \<times> string) option" where
  "key_match ds =
     (let name = takeWhile (\<lambda>x. x \<noteq> CHR '')'') ds;
          after = dropWhile (\<lambda>x. x \<noteq> CHR '')'') ds
      in if name \<noteq> [] \<and> take 2 after = '')s'' then Some (name, drop 2 after) else None)"

text \<open>
  \<open>_interpolate_some\<close>, with the text it has gathered as its result and \<open>None\<close> where it
  raises: beyond depth 10, at a \<open>%\<close> followed by neither \<open>%\<close> nor a well-formed
  reference, and at a reference to a name that has no value.
\<close>

function interpolate_some :: "nat \<Rightarrow> (string \<rightharpoonup> string) \<Rightarrow> string \<Rightarrow> string option" where
  "interpolate_some depth m rest =
     (if depth > 10 then None
      else
        (case rest of
           [] \<Rightarrow> Some []
         | c # cs \<Rightarrow>
             if c \<noteq> CHR ''%'' then map_option ((#) c) (interpolate_some depth m cs)
             else
               (case cs of
                  [] \<Rightarrow> None
                | d # ds \<Rightarrow>
                    if d = CHR ''%''
                    then map_option ((#) (CHR ''%'')) (interpolate_some depth m ds)
                    else if d = CHR ''(''
                    then
                      (case key_match ds of
                         None \<Rightarrow> None
                       | Some (name, rest') \<Rightarrow>
                           (case m (str_lower name) of
                              None \<Rightarrow> None
                            | Some v \<Rightarrow>
                                (case (if CHR ''%'' \<in> set v
                                       then interpolate_some (depth + 1) m v
                                       else Some v) of
                                   None \<Rightarrow> None
                                 | Some out \<Rightarrow>
                                     map_option ((@) out) (interpolate_some depth m rest'))))
                    else None)))"
  by pat_completeness auto

termination interpolate_some
proof (relation "measures [\<lambda>(depth, m, rest). 11 - depth, \<lambda>(depth, m, rest). length rest]",
    goal_cases)
  case (5 depth m rest c cs d ds x name rest')
  have "length (dropWhile (\<lambda>x. x \<noteq> CHR '')'') ds) \<le> length ds"
    by (rule length_dropWhile_le)
  with 5 show ?case
    by (auto simp add: key_match_def Let_def split: if_splits)
qed auto

declare interpolate_some.simps [simp del]

text \<open>
  \<open>parser[name].get(key)\<close> for a section that is there: the value of the option in the
  section, else in \<open>DEFAULT\<close>, interpolated over both; \<open>None\<close> when there is no value.
\<close>

definition section_get :: "ini \<Rightarrow> string \<Rightarrow> string \<Rightarrow> error + string option" where
  "section_get p name key =
     (case map_of (sections p) name of
        None \<Rightarrow> Inr None
      | Some kv \<Rightarrow>
          (let d = map_of (default_section p) ++ map_of kv in
           case d (str_lower key) of
             None \<Rightarrow> Inr None
           | Some v \<Rightarrow>
               (case interpolate_some 1 d v of
                  None \<Rightarrow> Inl ConfigError
                | Some s \<Rightarrow> Inr (Some s))))"

text \<open>\<open>parser.add_section(name)\<close>, called only when the section is not there.\<close>

definition add_section :: "string \<Rightarrow> ini \<Rightarrow> ini" where
  "add_section name p = p\<lparr>sections := sections p @ [(name, [])]\<rparr>"

text \<open>
  \<open>before_set\<close>: a value is refused when, once every \<open>%%\<close> and then every well-formed
  reference is taken out, a \<open>%\<close> is left.
\<close>

fun remove_escaped :: "string \<Rightarrow> string" where
  "remove_escaped (a # b # cs) =
     (if a = CHR ''%'' \<and> b = CHR ''%'' then remove_escaped cs else a # remove_escaped (b # cs))"
| "remove_escaped cs = cs"

function (sequential) remove_keys :: "string \<Rightarrow> string" where
  "remove_keys (c # d # ds) =
     (if c = CHR ''%'' \<and> d = CHR ''(''
      then (case key_match ds of
              None \<Rightarrow> c # remove_keys (d # ds)
            | Some (name, rest') \<Rightarrow> remove_keys rest')
      else c # remove_keys (d # ds))"
| "remove_keys cs = cs"
  by pat_completeness auto

termination remove_keys
proof (relation "measure length", goal_cases)
  case (3 c d ds x name rest')
  have "length (dropWhile (\<lambda>x. x \<noteq> CHR '')'') ds) \<le> length ds"
    by (rule length_dropWhile_le)
  with 3 show ?case
    by (auto simp add: key_match_def Let_def split: if_splits)
qed auto

definition valid_interpolation :: "string \<Rightarrow> bool" where
  "valid_interpolation v = (CHR ''%'' \<notin> set (remove_keys (remove_escaped v)))"

text \<open>\<open>parser[name][key] = v\<close>, once the value has been accepted.\<close>

definition parser_set :: "string \<Rightarrow> string \<Rightarrow> string \<Rightarrow> ini \<Rightarrow> ini" where
  "parser_set name key v p =
     p\<lparr>sections := AList.map_entry name (AList.update (str_lower key) v) (sections p)\<rparr>"

section \<open>KiteConfig (kite\_wrapper/config.py)\<close>

record KiteConfig =
  api_key :: "string option"
  api_secret :: "string option"
  access_token :: "string option"
  config_path :: string

text \<open>\<open>os.path.join(os.path.expanduser("~"), ".kite", "config.ini")\<close>, for a home directory \<open>home\<close>.\<close>

definition default_config_path :: "string \<Rightarrow> string" where
  "default_config_path home = home @ ''/.kite/config.ini''"

definition missing_message :: string where
  "missing_message =
     ''API key or secret is missing. Please set them in config or environment variables.''"

text \<open>
  Lines 21 to 26 of \<open>_load_config\<close>: the environment fills the fields that are \<open>None\<close>.
\<close>

definition load_env :: "environ \<Rightarrow> KiteConfig \<Rightarrow> KiteConfig" where
  "load_env env self0 =
     (let self1 = (if api_key self0 = None
                   then self0\<lparr>api_key := env ''KITE_API_KEY''\<rparr> else self0);
          self2 = (if api_secret self1 = None
                   then self1\<lparr>api_secret := env ''KITE_API_SECRET''\<rparr> else self1)
      in (if access_token self2 = None
          then self2\<lparr>access_token := env ''KITE_ACCESS_TOKEN''\<rparr> else self2))"

text \<open>
  Lines 35 to 40: the \<open>Kite\<close> section fills the fields that are still \<open>None\<close>; a value is
  read, and can make \<open>configparser\<close> raise, only for such a field.
\<close>

definition load_section :: "ini \<Rightarrow> KiteConfig \<Rightarrow> error + KiteConfig" where
  "load_section parser self3 =
     (case (if api_key self3 = None
            then (case section_get parser ''Kite'' ''api_key'' of
                    Inl e \<Rightarrow> Inl e
                  | Inr v \<Rightarrow> Inr (self3\<lparr>api_key := v\<rparr>))
            else Inr self3) of
        Inl e \<Rightarrow> Inl e
      | Inr self4 \<Rightarrow>
          (case (if api_secret self4 = None
                 then (case section_get parser ''Kite'' ''api_secret'' of
                         Inl e \<Rightarrow> Inl e
                       | Inr v \<Rightarrow> Inr (self4\<lparr>api_secret := v\<rparr>))
                 else Inr self4) of
             Inl e \<Rightarrow> Inl e
           | Inr self5 \<Rightarrow>
               (if access_token self5 = None
                then (case section_get parser ''Kite'' ''access_token'' of
                        Inl e \<Rightarrow> Inl e
                      | Inr v \<Rightarrow> Inr (self5\<lparr>access_token := v\<rparr>))
                else Inr self5)))"

text \<open>
  \<open>KiteConfig._load_config\<close>: the environment, then the \<open>Kite\<close> section of an existing
  file, then the final check, which raises \<open>DataException\<close> when the key or the secret is
  falsy.
\<close>

definition load_config :: "environ \<Rightarrow> filesystem \<Rightarrow> KiteConfig \<Rightarrow> error + KiteConfig" where
  "load_config env fs self0 =
     (let self3 = load_env env self0 in
      case (if fs (config_path self3) \<noteq> None then
              (case parser_read fs (config_path self3) of
                 Inl e \<Rightarrow> Inl e
               | Inr parser \<Rightarrow>
                   if in_parser ''Kite'' parser then load_section parser self3 else Inr self3)
            else Inr self3) of
        Inl e \<Rightarrow> Inl e
      | Inr self6 \<Rightarrow>
          if \<not> truthy_str (api_key self6) \<or> \<not> truthy_str (api_secret self6)
          then Inl (Kite DataException (JStr missing_message) None)
          else Inr self6)"

text \<open>
  \<open>KiteConfig.__init__\<close>: \<open>config_path or default\<close> takes the default for \<open>None\<close> and for
  the empty string.
\<close>

definition resolved_path :: "string \<Rightarrow> string option \<Rightarrow> string" where
  "resolved_path home path = (if truthy_str path then the path else default_config_path home)"

definition KiteConfig_init ::
  "string \<Rightarrow> environ \<Rightarrow> filesystem \<Rightarrow> string option \<Rightarrow> string option \<Rightarrow> string option
     \<Rightarrow> string option \<Rightarrow> error + KiteConfig" where
  "KiteConfig_init home env fs key secret token path =
     load_config env fs
       \<lparr>api_key = key, api_secret = secret, access_token = token,
        config_path = resolved_path home path\<rparr>"

text \<open>
  \<open>KiteConfig.set_access_token\<close>, with the exception it raises, if any, beside the object
  and the file system as it leaves them. The field is assigned first. An existing file is
  read, which can raise; the parser is given a \<open>Kite\<close> section if it has none; the token is
  put in, which raises \<open>TypeError\<close> for \<open>None\<close> and \<open>ValueError\<close> for a token that is not
  empty and not valid for interpolation; the file is written back, and an \<open>IOError\<close> on
  opening it for writing is swallowed.
\<close>

definition KiteConfig_set_access_token ::
  "string option \<Rightarrow> KiteConfig \<times> filesystem \<Rightarrow> error option \<times> KiteConfig \<times> filesystem" where
  "KiteConfig_set_access_token tok st =
     (let self = (fst st)\<lparr>access_token := tok\<rparr>; fs = snd st in
      case fs (config_path self) of
        None \<Rightarrow> (None, self, fs)
      | Some f \<Rightarrow>
          (case parser_read fs (config_path self) of
             Inl e \<Rightarrow> (Some e, self, fs)
           | Inr parser0 \<Rightarrow>
               (let parser1 = (if \<not> in_parser ''Kite'' parser0
                               then add_section ''Kite'' parser0 else parser0)
                in case tok of
                     None \<Rightarrow> (Some TypeError, self, fs)
                   | Some t \<Rightarrow>
                       if t \<noteq> [] \<and> \<not> valid_interpolation t then (Some ValueError, self, fs)
                       else
                         (let parser2 = parser_set ''Kite'' ''access_token'' t parser1
                          in if writable f
                             then (None, self,
                                   fs(config_path self \<mapsto> f\<lparr>content := Parsed parser2\<rparr>))
                             else (None, self, fs)))))"

section \<open>The resolution rule as the specification words it\<close>

text \<open>
  The specification's rule for one field: the explicit parameter if present, else the
  environment variable if present, else the value of the configuration file.
\<close>

definition spec_resolve ::
  "string option \<Rightarrow> string option \<Rightarrow> string option \<Rightarrow> string option" where
  "spec_resolve explicit envv filev =
     (case explicit of
        Some v \<Rightarrow> Some v
      | None \<Rightarrow> (case envv of Some v \<Rightarrow> Some v | None \<Rightarrow> filev))"

text \<open>What a read of a value gives when it does not raise, and nothing when it raises.\<close>

definition value_read :: "error + string option \<Rightarrow> string option" where
  "value_read g = (case g of Inl e \<Rightarrow> None | Inr v \<Rightarrow> v)"

text \<open>
  The configuration file as a source: a file that exists at the path, can be read, is
  accepted by the parser and has a \<open>Kite\<close> section gives that section's value; any other
  file gives nothing.
\<close>

definition spec_file_value :: "filesystem \<Rightarrow> string \<Rightarrow> string \<Rightarrow> string option" where
  "spec_file_value fs p key =
     (case fs p of
        None \<Rightarrow> None
      | Some f \<Rightarrow>
          (case content f of
             Rejected \<Rightarrow> None
           | Parsed d \<Rightarrow>
               if readable f \<and> ''Kite'' \<in> set (map fst (sections d))
               then value_read (section_get d ''Kite'' key) else None))"

text \<open>
  The three states of the file system the claim names: no file at the path, a file that
  cannot be read, a file that the parser accepts and that has no \<open>Kite\<close> section.
\<close>

definition without_section :: "filesystem \<Rightarrow> string \<Rightarrow> bool" where
  "without_section fs p =
     (case fs p of
        None \<Rightarrow> True
      | Some f \<Rightarrow>
          \<not> readable f
          \<or> (case content f of
                Rejected \<Rightarrow> False
              | Parsed d \<Rightarrow> ''Kite'' \<notin> set (map fst (sections d))))"

text \<open>
  A section's own value for a key as the file has it written, without the fall-back to
  \<open>DEFAULT\<close> and without interpolation.
\<close>

definition own_value :: "ini \<Rightarrow> string \<Rightarrow> string \<Rightarrow> string option" where
  "own_value p name key =
     (case map_of (sections p) name of None \<Rightarrow> None | Some kv \<Rightarrow> map_of kv key)"

text \<open>The document \<open>set_access_token\<close> writes back, from the document it has read.\<close>

definition upsert_token :: "string \<Rightarrow> ini \<Rightarrow> ini" where
  "upsert_token tok p =
     parser_set ''Kite'' ''access_token'' tok
       (if \<not> in_parser ''Kite'' p then add_section ''Kite'' p else p)"

section \<open>The response classifier (KiteClient.\_request, lines 97 to 112)\<close>

text \<open>
  A response as the code reads it: the status code, the \<open>content-type\<close> header if there is
  one, the result of \<open>response.json()\<close> (\<open>None\<close> when it raises \<open>ValueError\<close>), the text
  of the body and the printed form of its bytes.
\<close>

record response =
  status_code :: int
  content_type :: "string option"
  json_result :: "json option"
  text_of :: string
  content_repr :: string

text \<open>\<open>sub in s\<close> on strings.\<close>

fun contains :: "string \<Rightarrow> string \<Rightarrow> bool" where
  "contains sub [] = (sub = [])"
| "contains sub (c # cs) = (take (length sub) (c # cs) = sub \<or> contains sub cs)"

text \<open>\<open>str(n)\<close> for an integer, as an f-string prints it.\<close>

fun str_nat :: "nat \<Rightarrow> string" where
  "str_nat n =
     (if n < 10 then [''0123456789'' ! n]
      else str_nat (n div 10) @ [''0123456789'' ! (n mod 10)])"

declare str_nat.simps [simp del]

definition str_int :: "int \<Rightarrow> string" where
  "str_int i = (if i < 0 then ''-'' @ str_nat (nat (- i)) else str_nat (nat i))"

text \<open>Python truthiness of a JSON value, and whether it can be a dict key.\<close>

fun truthy :: "json \<Rightarrow> bool" where
  "truthy JNull = False"
| "truthy (JBool b) = b"
| "truthy (JNum n) = (n \<noteq> 0)"
| "truthy (JStr s) = (s \<noteq> [])"
| "truthy (JArr xs) = (xs \<noteq> [])"
| "truthy (JObj kv) = (kv \<noteq> [])"

fun hashable :: "json \<Rightarrow> bool" where
  "hashable (JArr xs) = False"
| "hashable (JObj kv) = False"
| "hashable j = True"

text \<open>\<open>KiteClient._exception_map\<close>.\<close>

definition exception_map :: "string \<rightharpoonup> kind" where
  "exception_map = map_of
     [(''TokenException'', TokenException),
      (''GeneralException'', GeneralException),
      (''PermissionException'', PermissionException),
      (''OrderException'', OrderException),
      (''InputException'', InputException),
      (''DataException'', DataException),
      (''NetworkException'', NetworkException)]"

text \<open>\<open>self._exception_map.get(error_type, KiteException)\<close> for a tag that is hashable.\<close>

fun exception_class :: "json \<Rightarrow> kind" where
  "exception_class (JStr s) = (case exception_map s of Some k \<Rightarrow> k | None \<Rightarrow> KiteException)"
| "exception_class j = KiteException"

text \<open>\<open>data.get("message", "Unknown error")\<close>.\<close>

definition body_message :: "(string \<times> json) list \<Rightarrow> json" where
  "body_message kv = (case map_of kv ''message'' of Some m \<Rightarrow> m | None \<Rightarrow> JStr ''Unknown error'')"

text \<open>The error of line 111: the base class, with the status code and the raw text.\<close>

definition http_error :: "response \<Rightarrow> error" where
  "http_error r =
     Kite KiteException
       (JStr (''HTTP error: '' @ str_int (status_code r) @ '' - '' @ text_of r))
       (Some (status_code r))"

text \<open>
  Lines 97 to 112 of \<open>_request\<close>: the body is parsed when the content type names JSON and is
  the text otherwise; a status of 400 or more raises, by the \<open>error_type\<close> of a dict body when
  that is truthy and by \<open>http_error\<close> otherwise; anything else returns the body.
\<close>

definition classify :: "response \<Rightarrow> error + json" where
  "classify r =
     (case (if contains ''application/json''
                 (case content_type r of None \<Rightarrow> [] | Some ct \<Rightarrow> ct)
            then (case json_result r of
                    None \<Rightarrow> Inl (Kite DataException
                                  (JStr (''Failed to parse JSON response: '' @ content_repr r)) None)
                  | Some j \<Rightarrow> Inr j)
            else Inr (JStr (text_of r))) of
        Inl e \<Rightarrow> Inl e
      | Inr data \<Rightarrow>
          if status_code r \<ge> 400 then
            (case data of
               JObj kv \<Rightarrow>
                 (case map_of kv ''error_type'' of
                    None \<Rightarrow> Inl (http_error r)
                  | Some error_type \<Rightarrow>
                      if truthy error_type then
                        (if hashable error_type
                         then Inl (Kite (exception_class error_type) (body_message kv)
                                     (Some (status_code r)))
                         else Inl TypeError)
                      else Inl (http_error r))
             | _ \<Rightarrow> Inl (http_error r))
          else Inr data)"

section \<open>KiteClient (kite\_wrapper/client.py)\<close>

text \<open>
  What the client does to its collaborators is recorded as a list of calls: the requests
  handed to \<open>session.request\<close>, and the calls of the \<open>KiteConnect\<close> object.
\<close>

record http_call =
  call_method :: string
  call_uri :: string
  call_params :: "(string \<times> json) list option"
  call_data :: "(string \<times> json) list option"
  call_json :: "(string \<times> json) list option"
  call_headers :: "string \<rightharpoonup> string"

datatype call =
    Http http_call
  | KcGenerateSession string string
  | KcSetAccessToken "string option"

record world =
  files :: filesystem
  calls :: "call list"

text \<open>
  The client object. \<open>kite_connect_client\<close> tells whether the \<open>KiteConnect\<close> object was
  built (the attribute is \<open>None\<close> when its constructor raised); \<open>session_headers\<close> is
  \<open>session.headers\<close>.
\<close>

record KiteClient =
  config :: KiteConfig
  debug :: bool
  client_access_token :: "string option"
  client_api_key :: "string option"
  client_api_secret :: "string option"
  client_timeout :: int
  proxies :: "(string \<times> string) list"
  kite_connect_client :: bool
  session_headers :: "string \<rightharpoonup> string"

definition API_VERSION :: string where
  "API_VERSION = ''3''"

definition root_url :: string where
  "root_url = ''https://api.kite.trade''"

text \<open>
  \<open>urljoin(self._root, route)\<close>, for a route that is an absolute path without dot
  segments, as the routes the client writes out are (\<open>/quote\<close>, \<open>/user/profile\<close>): the
  root has no path, so the result is the root followed by the route. Routes of other
  shapes, which \<open>urljoin\<close> would resolve, are outside this definition.
\<close>

definition urljoin :: "string \<Rightarrow> string \<Rightarrow> string" where
  "urljoin base route = base @ route"

text \<open>The headers of a fresh \<open>requests.Session\<close>; none of them is \<open>Authorization\<close>.\<close>

definition requests_default_headers :: "string \<rightharpoonup> string" where
  "requests_default_headers =
     [''User-Agent'' \<mapsto> ''python-requests'', ''Accept-Encoding'' \<mapsto> ''gzip, deflate'',
      ''Accept'' \<mapsto> ''*/*'', ''Connection'' \<mapsto> ''keep-alive'']"

text \<open>The value of the \<open>Authorization\<close> header, line 70.\<close>

definition authorization :: "KiteClient \<Rightarrow> string" where
  "authorization self =
     ''token '' @ the (client_api_key self) @ '':'' @
       (if truthy_str (client_access_token self) then the (client_access_token self) else [])"

text \<open>\<open>KiteClient._update_headers\<close>.\<close>

definition update_headers :: "KiteClient \<Rightarrow> KiteClient" where
  "update_headers self =
     (let headers = [''X-Kite-Version'' \<mapsto> API_VERSION,
                     ''User-Agent'' \<mapsto> ''KiteConnect-Python/3''];
          headers' = (if truthy_str (client_api_key self)
                      then headers(''Authorization'' \<mapsto> authorization self)
                      else headers)
      in self\<lparr>session_headers := session_headers self ++ headers'\<rparr>)"

text \<open>
  The transport: what \<open>session.request\<close> answers to a call, a
  \<open>requests.exceptions.RequestException\<close> with its text or a response.
\<close>

datatype transport_outcome =
    RequestException string
  | Response response

type_synonym transport = "http_call \<Rightarrow> transport_outcome"

text \<open>
  \<open>KiteClient._request\<close>. Parameters whose value is \<open>None\<close> are dropped, the headers are
  recomputed, the call is made, and the response goes through \<open>classify\<close>. The result is
  paired with the client and the world as the call leaves them.
\<close>

definition request ::
  "transport \<Rightarrow> string \<Rightarrow> string \<Rightarrow> (string \<times> json) list option
     \<Rightarrow> (string \<times> json) list option \<Rightarrow> bool \<Rightarrow> KiteClient \<times> world
     \<Rightarrow> (error + json) \<times> KiteClient \<times> world" where
  "request tr method route params data is_json st =
     (let params1 = (case params of None \<Rightarrow> [] | Some ps \<Rightarrow> ps);
          params2 = filter (\<lambda>kv. snd kv \<noteq> JNull) params1;
          uri = urljoin root_url route;
          self = update_headers (fst st);
          c = \<lparr>call_method = method, call_uri = uri,
               call_params = (if method = ''GET'' then Some params2 else None),
               call_data = (if method \<noteq> ''GET'' \<and> \<not> is_json then data else None),
               call_json = (if is_json then data else None),
               call_headers = session_headers self\<rparr>;
          w = (snd st)\<lparr>calls := calls (snd st) @ [Http c]\<rparr>
      in case tr c of
           RequestException e \<Rightarrow>
             (Inl (Kite NetworkException (JStr (''Network error: '' @ e)) None), self, w)
         | Response r \<Rightarrow> (classify r, self, w))"

text \<open>
  \<open>KiteClient.set_access_token\<close>, with the exception it raises, if any. When
  \<open>config.set_access_token\<close> raises, the attribute has been assigned and nothing else
  is done: the headers are not recomputed.
\<close>

definition KiteClient_set_access_token ::
  "string option \<Rightarrow> KiteClient \<times> world \<Rightarrow> error option \<times> KiteClient \<times> world" where
  "KiteClient_set_access_token tok st =
     (let self1 = (fst st)\<lparr>client_access_token := tok\<rparr>;
          cf = KiteConfig_set_access_token tok (config self1, files (snd st));
          self2 = self1\<lparr>config := fst (snd cf)\<rparr>;
          w1 = (snd st)\<lparr>files := snd (snd cf)\<rparr>
      in case fst cf of
           Some e \<Rightarrow> (Some e, self2, w1)
         | None \<Rightarrow>
             (let self3 = update_headers self2
              in if kite_connect_client self3
                 then (None, self3, w1\<lparr>calls := calls w1 @ [KcSetAccessToken tok]\<rparr>)
                 else (None, self3, w1)))"


text \<open>
  What \<open>kite_connect_client.generate_session\<close> can do: return session data, raise one of
  the wrapper's own exceptions, or raise any other exception, of which the code reads the
  class name, the attributes \<open>message\<close> (a string) and \<open>code\<close> if it has them, and the
  text \<open>str(e)\<close>. Of the session data the code reads \<open>access_token\<close>, which can be missing
  (\<open>None\<close>), be \<open>None\<close> (\<open>Some None\<close>) or be a string, and \<open>status_code\<close>.
\<close>

record session_data =
  sd_access_token :: "string option option"
  sd_status_code :: "int option"

record foreign_exception =
  type_name :: string
  message_attr :: "string option"
  code_attr :: "int option option"
  str_of :: string

datatype kc_outcome =
    Returned session_data
  | RaisedOwn kind json "int option"
  | Raised foreign_exception

type_synonym kc_generate_session = "string \<Rightarrow> string \<Rightarrow> kc_outcome"

text \<open>
  \<open>str(e)\<close> for an exception of Python or of \<open>configparser\<close>. The texts are the
  library's and are not computed here: they are taken as given.
\<close>

type_synonym exception_text = "error \<Rightarrow> string"

definition not_initialized_message :: string where
  "not_initialized_message = ''KiteConnect client not initialized. Cannot generate session.''"

definition secret_required_message :: string where
  "secret_required_message = ''API secret is required to generate a session.''"

definition no_token_message :: string where
  "no_token_message =
     ''Failed to generate session: '' @ [CHR 0x27] @ ''access_token'' @ [CHR 0x27]
       @ '' not found in response.''"

definition underlying_message :: string where
  "underlying_message = ''An underlying error occurred during session generation: ''"

text \<open>The handler of lines 148 to 157, for an exception that is not a \<open>KiteException\<close>.\<close>

definition wrap_foreign :: "foreign_exception \<Rightarrow> error" where
  "wrap_foreign e =
     (if message_attr e \<noteq> None \<and> code_attr e \<noteq> None then
        (if type_name e \<in> dom exception_map
         then Kite (the (exception_map (type_name e))) (JStr (the (message_attr e)))
                (the (code_attr e))
         else Kite GeneralException
                (JStr (''Underlying library error ('' @ type_name e @ ''): '' @ the (message_attr e)))
                (the (code_attr e)))
      else Kite GeneralException (JStr (underlying_message @ str_of e)) None)"

text \<open>
  \<open>KiteClient.generate_session\<close>. An exception that \<open>set_access_token\<close> raises inside
  the \<open>try\<close> is none of the wrapper's and has no \<open>code\<close>, so the last handler wraps it.
\<close>

definition generate_session ::
  "kc_generate_session \<Rightarrow> exception_text \<Rightarrow> string \<Rightarrow> string option \<Rightarrow> KiteClient \<times> world
     \<Rightarrow> (error + session_data) \<times> KiteClient \<times> world" where
  "generate_session kc etext request_token secret st =
     (if \<not> kite_connect_client (fst st)
      then (Inl (Kite GeneralException (JStr not_initialized_message) None), st)
      else
        (let secret_to_use = (if truthy_str secret then secret else client_api_secret (fst st)) in
         if \<not> truthy_str secret_to_use
         then (Inl (Kite InputException (JStr secret_required_message) None), st)
         else
           (let w1 = (snd st)\<lparr>calls := calls (snd st)
                        @ [KcGenerateSession request_token (the secret_to_use)]\<rparr>
            in case kc request_token (the secret_to_use) of
                 Returned sd \<Rightarrow>
                   (case sd_access_token sd of
                      Some tok \<Rightarrow>
                        (let r = KiteClient_set_access_token tok (fst st, w1)
                         in case fst r of
                              None \<Rightarrow> (Inr sd, snd r)
                            | Some e \<Rightarrow>
                                (Inl (Kite GeneralException
                                        (JStr (underlying_message @ etext e)) None), snd r))
                    | None \<Rightarrow>
                        (Inl (Kite TokenException (JStr no_token_message) (sd_status_code sd)),
                         fst st, w1))
               | RaisedOwn k m c \<Rightarrow> (Inl (Kite k m c), fst st, w1)
               | Raised e \<Rightarrow> (Inl (wrap_foreign e), fst st, w1))))"

text \<open>\<open>KiteClient.get_quote\<close>.\<close>

definition get_quote ::
  "transport \<Rightarrow> string list \<Rightarrow> KiteClient \<times> world \<Rightarrow> (error + json) \<times> KiteClient \<times> world" where
  "get_quote tr instruments st =
     (if instruments = []
      then (Inl (Kite InputException
                   (JStr ''At least one instrument must be provided for a quote.'') None), st)
      else request tr ''GET'' ''/quote'' (Some [(''i'', JArr (map JStr instruments))])
             None False st)"




section \<open>Concrete inputs\<close>

text \<open>
  The scenario of the specification: the environment sets the key and the secret, the file
  sets the key and the token, nothing is passed explicitly.
\<close>

definition scenario_env :: environ where
  "scenario_env = [''KITE_API_KEY'' \<mapsto> ''E'', ''KITE_API_SECRET'' \<mapsto> ''E2'']"

definition scenario_fs :: filesystem where
  "scenario_fs = [''cfg.ini'' \<mapsto>
     \<lparr>content = Parsed \<lparr>default_section = [],
                 sections = [(''Kite'', [(''api_key'', ''F''), (''access_token'', ''F2'')])]\<rparr>,
      readable = True, writable = True\<rparr>]"

definition no_env :: environ where
  "no_env = Map.empty"

definition no_files :: filesystem where
  "no_files = Map.empty"

text \<open>A file that exists and can be written but not read, holding one foreign section.\<close>

definition write_only_fs :: filesystem where
  "write_only_fs = [''cfg.ini'' \<mapsto>
     \<lparr>content = Parsed \<lparr>default_section = [], sections = [(''Other'', [(''x'', ''1'')])]\<rparr>,
      readable = False, writable = True\<rparr>]"

definition some_config :: KiteConfig where
  "some_config = \<lparr>api_key = Some ''k'', api_secret = Some ''s'', access_token = None,
                   config_path = ''cfg.ini''\<rparr>"

definition token_error_response :: response where
  "token_error_response =
     \<lparr>status_code = 403, content_type = Some ''application/json'',
      json_result = Some (JObj [(''error_type'', JStr ''TokenException''),
                                (''message'', JStr ''Access token is invalid or expired'')]),
      text_of = [], content_repr = []\<rparr>"

definition unknown_tag_response :: response where
  "unknown_tag_response =
     \<lparr>status_code = 400, content_type = Some ''application/json'',
      json_result = Some (JObj [(''error_type'', JStr ''FooException''),
                                (''message'', JStr ''boom'')]),
      text_of = [], content_repr = []\<rparr>"

text \<open>The same response with an \<open>error_type\<close> that is there and empty.\<close>

definition empty_tag_response :: response where
  "empty_tag_response =
     \<lparr>status_code = 400, content_type = Some ''application/json'',
      json_result = Some (JObj [(''error_type'', JStr []), (''message'', JStr ''boom'')]),
      text_of = ''raw'', content_repr = []\<rparr>"

definition html_response :: response where
  "html_response =
     \<lparr>status_code = 404, content_type = Some ''text/html'', json_result = None,
      text_of = ''Resource not found (HTML page)'', content_repr = []\<rparr>"

definition html_transport :: transport where
  "html_transport c = Response html_response"

definition empty_world :: world where
  "empty_world = \<lparr>files = no_files, calls = []\<rparr>"

text \<open>A client whose \<open>KiteConnect\<close> object was built, with a key and a secret and no token.\<close>

definition ready_client :: KiteClient where
  "ready_client =
     \<lparr>config = some_config, debug = False, client_access_token = None,
      client_api_key = Some ''k'', client_api_secret = Some ''s'', client_timeout = 7,
      proxies = [], kite_connect_client = True, session_headers = requests_default_headers\<rparr>"

text \<open>The same client with its secret taken away, as a test does by assignment.\<close>

definition no_secret_client :: KiteClient where
  "no_secret_client = ready_client\<lparr>client_api_secret := None\<rparr>"

text \<open>A client without secret whose \<open>KiteConnect\<close> object could not be built.\<close>

definition uninit_client :: KiteClient where
  "uninit_client = no_secret_client\<lparr>kite_connect_client := False\<rparr>"

text \<open>The library raising its own \<open>TokenException\<close>, which is not the wrapper's class.\<close>

definition library_token_exception :: foreign_exception where
  "library_token_exception =
     \<lparr>type_name = ''TokenException'', message_attr = Some ''Invalid request token'',
      code_attr = Some (Some 403), str_of = ''Invalid request token''\<rparr>"

definition kc_token_error :: kc_generate_session where
  "kc_token_error request_token secret = Raised library_token_exception"

definition no_text :: exception_text where
  "no_text e = []"


section \<open>Credential resolution\<close>

lemma in_parser_Kite: "in_parser ''Kite'' p = (''Kite'' \<in> set (map fst (sections p)))"
  by (simp add: in_parser_def)

lemma str_lower_keys:
  "str_lower ''api_key'' = ''api_key''"
  "str_lower ''api_secret'' = ''api_secret''"
  "str_lower ''access_token'' = ''access_token''"
  by (simp_all add: str_lower_def lower_char_def)

text \<open>A value without \<open>%\<close> is read as it is written.\<close>

lemma interpolate_plain:
  assumes "CHR ''%'' \<notin> set v" and "depth \<le> 10"
  shows "interpolate_some depth m v = Some v"
  using assms
proof (induction v)
  case Nil
  then show ?case by (subst interpolate_some.simps) simp
next
  case (Cons c cs)
  then show ?case by (subst interpolate_some.simps) auto
qed

lemma section_get_error: "section_get p name key = Inl e \<Longrightarrow> e = ConfigError"
  by (auto simp add: section_get_def Let_def split: option.splits)

lemma spec_resolve_twice:
  "spec_resolve (spec_resolve a b None) None c = spec_resolve a b c"
  by (cases a; cases b) (simp_all add: spec_resolve_def split: option.split)

lemma spec_resolve_no_file:
  "truthy_str (spec_resolve a b None) \<Longrightarrow> spec_resolve a b f = spec_resolve a b None"
  by (cases a; cases b) (simp_all add: spec_resolve_def)

lemma load_env_eq:
  "load_env env \<lparr>api_key = k, api_secret = s, access_token = t, config_path = p\<rparr> =
     \<lparr>api_key = spec_resolve k (env ''KITE_API_KEY'') None,
      api_secret = spec_resolve s (env ''KITE_API_SECRET'') None,
      access_token = spec_resolve t (env ''KITE_ACCESS_TOKEN'') None,
      config_path = p\<rparr>"
  by (cases k; cases s; cases t) (simp_all add: load_env_def spec_resolve_def split: option.split)

text \<open>
  The section stage either raises what the parser raises or fills the three fields by the
  rule.
\<close>

lemma load_section_cases:
  "load_section parser \<lparr>api_key = k, api_secret = s, access_token = t, config_path = p\<rparr>
     = Inl ConfigError
   \<or> load_section parser \<lparr>api_key = k, api_secret = s, access_token = t, config_path = p\<rparr> =
       Inr \<lparr>api_key = spec_resolve k None (value_read (section_get parser ''Kite'' ''api_key'')),
            api_secret = spec_resolve s None
                           (value_read (section_get parser ''Kite'' ''api_secret'')),
            access_token = spec_resolve t None
                             (value_read (section_get parser ''Kite'' ''access_token'')),
            config_path = p\<rparr>"
proof -
  define gk where "gk = section_get parser ''Kite'' ''api_key''"
  define gs where "gs = section_get parser ''Kite'' ''api_secret''"
  define gt where "gt = section_get parser ''Kite'' ''access_token''"
  have ek: "gk = Inl e \<Longrightarrow> e = ConfigError" for e
    unfolding gk_def by (rule section_get_error)
  have es: "gs = Inl e \<Longrightarrow> e = ConfigError" for e
    unfolding gs_def by (rule section_get_error)
  have et: "gt = Inl e \<Longrightarrow> e = ConfigError" for e
    unfolding gt_def by (rule section_get_error)
  show ?thesis
    unfolding load_section_def gk_def [symmetric] gs_def [symmetric] gt_def [symmetric]
    by (cases k; cases s; cases t; cases gk; cases gs; cases gt)
       (auto simp add: spec_resolve_def value_read_def dest: ek es et)
qed

lemma without_section_read:
  "without_section fs p \<longleftrightarrow>
     fs p = None \<or> (\<exists>parser. parser_read fs p = Inr parser \<and> \<not> in_parser ''Kite'' parser)"
  by (auto simp add: without_section_def parser_read_def in_parser_Kite empty_ini_def
      split: option.splits parse_result.splits)

lemma spec_file_value_without_section:
  "without_section fs p \<Longrightarrow> spec_file_value fs p key = None"
  by (auto simp add: without_section_def spec_file_value_def
      split: option.splits parse_result.splits)

text \<open>Without a \<open>Kite\<close> section to read, only the final check can fail.\<close>

lemma load_config_without_section:
  assumes "without_section fs p"
  shows "load_config env fs \<lparr>api_key = k, api_secret = s, access_token = t, config_path = p\<rparr> =
     (if \<not> truthy_str (spec_resolve k (env ''KITE_API_KEY'') None)
       \<or> \<not> truthy_str (spec_resolve s (env ''KITE_API_SECRET'') None)
      then Inl (Kite DataException (JStr missing_message) None)
      else Inr \<lparr>api_key = spec_resolve k (env ''KITE_API_KEY'') None,
                api_secret = spec_resolve s (env ''KITE_API_SECRET'') None,
                access_token = spec_resolve t (env ''KITE_ACCESS_TOKEN'') None,
                config_path = p\<rparr>)"
  using assms [unfolded without_section_read]
  by (auto simp add: load_config_def load_env_eq Let_def)

text \<open>
  \<open>_load_config\<close> either raises what the parser raises, or computes the three fields by
  the rule and then checks two of them.
\<close>

lemma load_config_cases:
  "load_config env fs \<lparr>api_key = k, api_secret = s, access_token = t, config_path = p\<rparr>
     = Inl ConfigError
   \<or> load_config env fs \<lparr>api_key = k, api_secret = s, access_token = t, config_path = p\<rparr> =
       (if \<not> truthy_str (spec_resolve k (env ''KITE_API_KEY'') (spec_file_value fs p ''api_key''))
         \<or> \<not> truthy_str (spec_resolve s (env ''KITE_API_SECRET'')
                            (spec_file_value fs p ''api_secret''))
        then Inl (Kite DataException (JStr missing_message) None)
        else Inr \<lparr>api_key = spec_resolve k (env ''KITE_API_KEY'')
                              (spec_file_value fs p ''api_key''),
                  api_secret = spec_resolve s (env ''KITE_API_SECRET'')
                                 (spec_file_value fs p ''api_secret''),
                  access_token = spec_resolve t (env ''KITE_ACCESS_TOKEN'')
                                   (spec_file_value fs p ''access_token''),
                  config_path = p\<rparr>)"
proof (cases "without_section fs p")
  case True
  then show ?thesis
    by (simp add: load_config_without_section spec_file_value_without_section)
next
  case False
  then obtain f where f: "fs p = Some f" and r: "readable f"
    by (auto simp add: without_section_def split: option.splits)
  show ?thesis
  proof (cases "content f")
    case Rejected
    with f r show ?thesis
      by (simp add: load_config_def load_env_eq parser_read_def Let_def)
  next
    case (Parsed d)
    with False f r have k: "''Kite'' \<in> set (map fst (sections d))"
      by (simp add: without_section_def)
    have v: "spec_file_value fs p key = value_read (section_get d ''Kite'' key)" for key
      using f r Parsed k by (simp add: spec_file_value_def)
    have l: "load_config env fs \<lparr>api_key = k, api_secret = s, access_token = t, config_path = p\<rparr> =
        (case load_section d
                \<lparr>api_key = spec_resolve k (env ''KITE_API_KEY'') None,
                 api_secret = spec_resolve s (env ''KITE_API_SECRET'') None,
                 access_token = spec_resolve t (env ''KITE_ACCESS_TOKEN'') None,
                 config_path = p\<rparr> of
           Inl e \<Rightarrow> Inl e
         | Inr self6 \<Rightarrow>
             if \<not> truthy_str (api_key self6) \<or> \<not> truthy_str (api_secret self6)
             then Inl (Kite DataException (JStr missing_message) None)
             else Inr self6)"
      using f r Parsed k
      by (simp add: load_config_def load_env_eq parser_read_def in_parser_Kite Let_def)
    from load_section_cases [of d "spec_resolve k (env ''KITE_API_KEY'') None"
        "spec_resolve s (env ''KITE_API_SECRET'') None"
        "spec_resolve t (env ''KITE_ACCESS_TOKEN'') None" p]
    show ?thesis
      by (auto simp add: l v spec_resolve_twice)
  qed
qed

lemma KiteConfig_init_cases:
  "KiteConfig_init home env fs key secret token path = Inl ConfigError
   \<or> KiteConfig_init home env fs key secret token path =
     (if \<not> truthy_str (spec_resolve key (env ''KITE_API_KEY'')
                          (spec_file_value fs (resolved_path home path) ''api_key''))
       \<or> \<not> truthy_str (spec_resolve secret (env ''KITE_API_SECRET'')
                          (spec_file_value fs (resolved_path home path) ''api_secret''))
      then Inl (Kite DataException (JStr missing_message) None)
      else Inr \<lparr>api_key = spec_resolve key (env ''KITE_API_KEY'')
                            (spec_file_value fs (resolved_path home path) ''api_key''),
                api_secret = spec_resolve secret (env ''KITE_API_SECRET'')
                               (spec_file_value fs (resolved_path home path) ''api_secret''),
                access_token = spec_resolve token (env ''KITE_ACCESS_TOKEN'')
                                 (spec_file_value fs (resolved_path home path) ''access_token''),
                config_path = resolved_path home path\<rparr>)"
  unfolding KiteConfig_init_def by (rule load_config_cases)


lemma scenario_values:
  "spec_file_value scenario_fs ''cfg.ini'' ''api_key'' = Some ''F''"
  "spec_file_value scenario_fs ''cfg.ini'' ''api_secret'' = None"
  "spec_file_value scenario_fs ''cfg.ini'' ''access_token'' = Some ''F2''"
  by (simp_all add: spec_file_value_def scenario_fs_def section_get_def str_lower_keys Let_def
      map_add_def interpolate_plain value_read_def)

lemma scenario_not_rejected:
  "KiteConfig_init ''/home/u'' scenario_env scenario_fs None None None (Some ''cfg.ini'')
     \<noteq> Inl ConfigError"
  by (simp add: KiteConfig_init_def load_config_def load_env_def load_section_def Let_def
      resolved_path_def scenario_env_def scenario_fs_def parser_read_def in_parser_def
      section_get_def str_lower_keys map_add_def interpolate_plain)

lemma scenario_init:
  "KiteConfig_init ''/home/u'' scenario_env scenario_fs None None None (Some ''cfg.ini'')
     = Inr \<lparr>api_key = Some ''E'', api_secret = Some ''E2'', access_token = Some ''F2'',
            config_path = ''cfg.ini''\<rparr>"
  using KiteConfig_init_cases [of "''/home/u''" scenario_env scenario_fs None None None
      "Some ''cfg.ini''"] scenario_not_rejected
  by (simp add: resolved_path_def scenario_values spec_resolve_def scenario_env_def)

text \<open>
  C1. Each of the three credential fields of a constructed \<open>KiteConfig\<close> is, on its own, the
  explicit parameter if one was passed, else the environment variable if it is set, else
  the value the configuration file gives.
\<close>

theorem resolution_precedence:
  assumes "KiteConfig_init home env fs key secret token path = Inr cfg"
  shows "api_key cfg = spec_resolve key (env ''KITE_API_KEY'')
                         (spec_file_value fs (config_path cfg) ''api_key'')
       \<and> api_secret cfg = spec_resolve secret (env ''KITE_API_SECRET'')
                         (spec_file_value fs (config_path cfg) ''api_secret'')
       \<and> access_token cfg = spec_resolve token (env ''KITE_ACCESS_TOKEN'')
                         (spec_file_value fs (config_path cfg) ''access_token'')"
proof -
  define p where "p = resolved_path home path"
  define K where "K = spec_resolve key (env ''KITE_API_KEY'') (spec_file_value fs p ''api_key'')"
  define S where "S = spec_resolve secret (env ''KITE_API_SECRET'')
                        (spec_file_value fs p ''api_secret'')"
  define T where "T = spec_resolve token (env ''KITE_ACCESS_TOKEN'')
                        (spec_file_value fs p ''access_token'')"
  have "KiteConfig_init home env fs key secret token path = Inl ConfigError
      \<or> KiteConfig_init home env fs key secret token path =
      (if \<not> truthy_str K \<or> \<not> truthy_str S
       then Inl (Kite DataException (JStr missing_message) None)
       else Inr \<lparr>api_key = K, api_secret = S, access_token = T, config_path = p\<rparr>)"
    unfolding p_def K_def S_def T_def by (rule KiteConfig_init_cases)
  with assms have "cfg = \<lparr>api_key = K, api_secret = S, access_token = T, config_path = p\<rparr>"
    by (auto split: if_splits)
  then show ?thesis
    unfolding K_def S_def T_def by simp
qed

theorem resolution_precedence_witness:
  "KiteConfig_init ''/home/u'' scenario_env scenario_fs None None None (Some ''cfg.ini'')
     = Inr \<lparr>api_key = Some ''E'', api_secret = Some ''E2'', access_token = Some ''F2'',
            config_path = ''cfg.ini''\<rparr>
   \<and> spec_resolve None (scenario_env ''KITE_API_KEY'')
        (spec_file_value scenario_fs ''cfg.ini'' ''api_key'') = Some ''E''
   \<and> spec_resolve None (scenario_env ''KITE_API_SECRET'')
        (spec_file_value scenario_fs ''cfg.ini'' ''api_secret'') = Some ''E2''
   \<and> spec_resolve None (scenario_env ''KITE_ACCESS_TOKEN'')
        (spec_file_value scenario_fs ''cfg.ini'' ''access_token'') = Some ''F2''"
  using resolution_precedence [OF scenario_init] scenario_init by simp

text \<open>
  C2, as stated, fails: an explicit empty key is present after the precedence rule (it is
  not \<open>None\<close>, and it shadows the environment and the file), yet the constructor raises.
\<close>

theorem resolution_failure_counterexample:
  "isl (KiteConfig_init ''/home/u'' no_env no_files (Some '''') (Some ''s'') None (Some ''cfg.ini''))
   \<and> spec_resolve (Some '''') (no_env ''KITE_API_KEY'')
        (spec_file_value no_files ''cfg.ini'' ''api_key'') \<noteq> None
   \<and> spec_resolve (Some ''s'') (no_env ''KITE_API_SECRET'')
        (spec_file_value no_files ''cfg.ini'' ''api_secret'') \<noteq> None"
  by (simp add: KiteConfig_init_def load_config_without_section without_section_def
      resolved_path_def no_env_def no_files_def spec_resolve_def)

text \<open>
  C2, amended. Where the parser does not raise on the file or on a value read from it,
  the constructor fails if and only if, after the precedence rule, the key or the secret
  is absent or the empty string, and the failure is a \<open>DataException\<close> whose message begins
  with "API key or secret is missing"; the token plays no part in it. When the explicit
  parameters and the environment give a key and a secret, a file that is absent, that
  cannot be read or that has no \<open>Kite\<close> section does not make it fail.
\<close>

theorem resolution_failure:
  "(KiteConfig_init home env fs key secret token path \<noteq> Inl ConfigError \<longrightarrow>
      (isl (KiteConfig_init home env fs key secret token path) \<longleftrightarrow>
          \<not> truthy_str (spec_resolve key (env ''KITE_API_KEY'')
                (spec_file_value fs (resolved_path home path) ''api_key''))
        \<or> \<not> truthy_str (spec_resolve secret (env ''KITE_API_SECRET'')
                (spec_file_value fs (resolved_path home path) ''api_secret'')))
      \<and> (isl (KiteConfig_init home env fs key secret token path) \<longrightarrow>
            KiteConfig_init home env fs key secret token path
              = Inl (Kite DataException (JStr missing_message) None)))
   \<and> take 28 missing_message = ''API key or secret is missing''
   \<and> (truthy_str (spec_resolve key (env ''KITE_API_KEY'') None)
        \<and> truthy_str (spec_resolve secret (env ''KITE_API_SECRET'') None)
        \<and> without_section fs (resolved_path home path)
        \<longrightarrow> \<not> isl (KiteConfig_init home env fs key secret token path))"
proof -
  let ?p = "resolved_path home path"
  let ?R = "KiteConfig_init home env fs key secret token path"
  define K where "K = spec_resolve key (env ''KITE_API_KEY'') (spec_file_value fs ?p ''api_key'')"
  define S where "S = spec_resolve secret (env ''KITE_API_SECRET'')
                        (spec_file_value fs ?p ''api_secret'')"
  define T where "T = spec_resolve token (env ''KITE_ACCESS_TOKEN'')
                        (spec_file_value fs ?p ''access_token'')"
  have cases: "?R = Inl ConfigError
      \<or> ?R = (if \<not> truthy_str K \<or> \<not> truthy_str S
               then Inl (Kite DataException (JStr missing_message) None)
               else Inr \<lparr>api_key = K, api_secret = S, access_token = T, config_path = ?p\<rparr>)"
    unfolding K_def S_def T_def by (rule KiteConfig_init_cases)
  have a: "?R \<noteq> Inl ConfigError \<longrightarrow>
      (isl ?R \<longleftrightarrow> \<not> truthy_str K \<or> \<not> truthy_str S)
      \<and> (isl ?R \<longrightarrow> ?R = Inl (Kite DataException (JStr missing_message) None))"
    using cases by (auto split: if_splits)
  have c: "take 28 missing_message = ''API key or secret is missing''"
    by (simp add: missing_message_def)
  have d: "truthy_str (spec_resolve key (env ''KITE_API_KEY'') None)
        \<and> truthy_str (spec_resolve secret (env ''KITE_API_SECRET'') None)
        \<and> without_section fs ?p
        \<longrightarrow> \<not> isl ?R"
    by (simp add: KiteConfig_init_def load_config_without_section)
  show ?thesis
    using a c d unfolding K_def S_def by (intro conjI) (assumption+)
qed

theorem resolution_failure_witness:
  "KiteConfig_init ''/home/u'' no_env no_files (Some '''') (Some ''s'') None (Some ''cfg.ini'')
     = Inl (Kite DataException (JStr missing_message) None)"
proof -
  let ?R = "KiteConfig_init ''/home/u'' no_env no_files (Some '''') (Some ''s'') None
              (Some ''cfg.ini'')"
  note t = resolution_failure [of "''/home/u''" no_env no_files "Some ''''" "Some ''s''" None
      "Some ''cfg.ini''", THEN conjunct1]
  have n: "?R \<noteq> Inl ConfigError"
    by (simp add: KiteConfig_init_def load_config_without_section without_section_def
        resolved_path_def no_files_def)
  have k: "\<not> truthy_str (spec_resolve (Some '''') (no_env ''KITE_API_KEY'')
            (spec_file_value no_files (resolved_path ''/home/u'' (Some ''cfg.ini'')) ''api_key''))"
    by (simp add: spec_resolve_def)
  from t n k have r: "isl ?R" by simp
  from t n r show ?thesis by simp
qed

section \<open>Token persistence\<close>

lemma set_access_token_memory:
  "access_token (fst (snd (KiteConfig_set_access_token tok st))) = tok"
  by (simp add: KiteConfig_set_access_token_def Let_def
      split: option.split sum.split)

lemma set_access_token_no_file:
  "fs (config_path cfg) = None \<Longrightarrow>
   KiteConfig_set_access_token tok (cfg, fs) = (None, cfg\<lparr>access_token := tok\<rparr>, fs)"
  by (simp add: KiteConfig_set_access_token_def Let_def)

text \<open>Whatever happens, a file that cannot be written is left as it is.\<close>

lemma set_access_token_unwritable:
  "fs (config_path cfg) = Some f \<Longrightarrow> \<not> writable f \<Longrightarrow>
   snd (snd (KiteConfig_set_access_token tok (cfg, fs))) = fs"
  by (simp add: KiteConfig_set_access_token_def Let_def split: option.split sum.split)

lemma set_access_token_write_skipped:
  "fs (config_path cfg) = Some f \<Longrightarrow> \<not> writable f \<Longrightarrow> parser_read fs (config_path cfg) = Inr d
   \<Longrightarrow> tok = [] \<or> valid_interpolation tok \<Longrightarrow>
   KiteConfig_set_access_token (Some tok) (cfg, fs) = (None, cfg\<lparr>access_token := Some tok\<rparr>, fs)"
  by (auto simp add: KiteConfig_set_access_token_def Let_def)

lemma set_access_token_written:
  "fs (config_path cfg) = Some f \<Longrightarrow> writable f \<Longrightarrow> parser_read fs (config_path cfg) = Inr d
   \<Longrightarrow> tok = [] \<or> valid_interpolation tok \<Longrightarrow>
   KiteConfig_set_access_token (Some tok) (cfg, fs) =
     (None, cfg\<lparr>access_token := Some tok\<rparr>,
      fs(config_path cfg \<mapsto> f\<lparr>content := Parsed (upsert_token tok d)\<rparr>))"
  by (auto simp add: KiteConfig_set_access_token_def Let_def upsert_token_def)

text \<open>
  What is written back holds every value of the document that was read, except that the
  \<open>Kite\<close> section now exists and its \<open>access_token\<close> is the new token.
\<close>

lemma upsert_token_own_value:
  "own_value (upsert_token tok p) name key =
     (if name = ''Kite'' \<and> key = ''access_token'' then Some tok else own_value p name key)"
proof (cases "map_of (sections p) ''Kite''")
  case None
  then have "\<not> in_parser ''Kite'' p"
    by (simp add: in_parser_Kite map_of_eq_None_iff)
  with None show ?thesis
    by (simp add: upsert_token_def own_value_def parser_set_def add_section_def str_lower_keys
        map_of_map_entry update_conv' map_add_def split: option.split)
next
  case (Some kv)
  then have "in_parser ''Kite'' p"
    by (simp add: in_parser_Kite) (metis map_of_eq_None_iff option.distinct(1) set_map)
  with Some show ?thesis
    by (simp add: upsert_token_def own_value_def parser_set_def str_lower_keys
        map_of_map_entry update_conv' split: option.split)
qed

lemma upsert_token_names:
  "fst ` set (sections (upsert_token tok p)) = insert ''Kite'' (fst ` set (sections p))"
  by (auto simp add: upsert_token_def parser_set_def add_section_def in_parser_Kite dom_map_entry)

lemma upsert_token_defaults:
  "default_section (upsert_token tok p) = default_section p"
  by (simp add: upsert_token_def parser_set_def add_section_def)

text \<open>
  On a file that can be read and written and that the parser accepts, persistence of a
  token the parser accepts keeps every section and key and changes the token of the
  \<open>Kite\<close> section only.
\<close>

lemma set_access_token_frame:
  assumes "fs (config_path cfg) = Some f" and "readable f" and "writable f"
    and "content f = Parsed d" and "tok = [] \<or> valid_interpolation tok"
  shows "\<exists>d'. KiteConfig_set_access_token (Some tok) (cfg, fs) =
             (None, cfg\<lparr>access_token := Some tok\<rparr>,
              fs(config_path cfg \<mapsto> f\<lparr>content := Parsed d'\<rparr>))
           \<and> default_section d' = default_section d
           \<and> fst ` set (sections d') = insert ''Kite'' (fst ` set (sections d))
           \<and> (\<forall>name key. own_value d' name key =
                 (if name = ''Kite'' \<and> key = ''access_token'' then Some tok
                  else own_value d name key))"
proof -
  from assms have r: "parser_read fs (config_path cfg) = Inr d"
    by (simp add: parser_read_def)
  show ?thesis
    by (intro exI [of _ "upsert_token tok d"])
       (simp add: set_access_token_written [OF assms(1) assms(3) r assms(5)]
          upsert_token_own_value upsert_token_names upsert_token_defaults)
qed

text \<open>
  C6 fails on a file that exists and can be written but not read: \<open>parser.read\<close> skips it,
  so the parser is empty when the token is put in, and the write replaces the file by the
  \<open>Kite\<close> section alone. The section \<open>Other\<close> that the file held is gone.
\<close>

theorem persist_unreadable_file:
  "KiteConfig_set_access_token (Some ''T'') (some_config, write_only_fs) =
     (None, some_config\<lparr>access_token := Some ''T''\<rparr>,
      [''cfg.ini'' \<mapsto>
         \<lparr>content = Parsed \<lparr>default_section = [],
                             sections = [(''Kite'', [(''access_token'', ''T'')])]\<rparr>,
          readable = False, writable = True\<rparr>])"
  by (simp add: KiteConfig_set_access_token_def Let_def some_config_def write_only_fs_def
      parser_read_def empty_ini_def in_parser_def add_section_def parser_set_def
      valid_interpolation_def str_lower_keys)

section \<open>The response classifier\<close>

lemma exception_map_simps:
  "exception_map ''TokenException'' = Some TokenException"
  "exception_map ''FooException'' = None"
  by (simp_all add: exception_map_def)

text \<open>The tags of the map are not empty, so a recognised tag is truthy.\<close>

lemma exception_map_nonempty: "exception_map t = Some k \<Longrightarrow> t \<noteq> []"
  by (auto simp add: exception_map_def)

lemma classify_json_error:
  assumes "content_type r = Some ct" and "contains ''application/json'' ct"
    and "json_result r = Some (JObj kv)" and "400 \<le> status_code r"
    and "map_of kv ''error_type'' = Some tag" and "truthy tag" and "hashable tag"
  shows "classify r = Inl (Kite (exception_class tag) (body_message kv) (Some (status_code r)))"
  using assms by (simp add: classify_def)

text \<open>A tag that cannot be a dict key makes the look-up itself raise.\<close>

lemma unhashable_tag_type_error:
  assumes "content_type r = Some ct" and "contains ''application/json'' ct"
    and "json_result r = Some (JObj kv)" and "400 \<le> status_code r"
    and "map_of kv ''error_type'' = Some tag" and "truthy tag" and "\<not> hashable tag"
  shows "classify r = Inl TypeError"
  using assms by (simp add: classify_def)

text \<open>
  C3 fails twice. For a tag outside the map the classifier raises the base class
  \<open>KiteException\<close>, the default of \<open>_exception_map.get\<close>, and not \<open>GeneralException\<close>. And
  a tag that is there but empty is treated as no tag: the error carries the status and
  the raw text, not the message of the body.
\<close>

theorem unknown_tag_counterexample:
  "classify unknown_tag_response = Inl (Kite KiteException (JStr ''boom'') (Some 400))
   \<and> classify unknown_tag_response \<noteq> Inl (Kite GeneralException (JStr ''boom'') (Some 400))
   \<and> classify empty_tag_response =
       Inl (Kite KiteException (JStr ''HTTP error: 400 - raw'') (Some 400))"
proof -
  have s: "str_int 400 = ''400''"
    by (simp add: str_int_def str_nat.simps)
  show ?thesis
    by (simp add: classify_def unknown_tag_response_def empty_tag_response_def body_message_def
        exception_map_simps http_error_def s)
qed

text \<open>
  C3, amended. For a JSON response with a dict body, a status of 400 or more and an
  \<open>error_type\<close> that is truthy, can be a dict key and is not one of the seven tags, the
  classifier raises the base kind \<open>KiteException\<close> with the body's message (or "Unknown
  error" when the body has none) and the status code.
\<close>

theorem unknown_tag_base_kind:
  assumes "content_type r = Some ct" and "contains ''application/json'' ct"
    and "json_result r = Some (JObj kv)" and "400 \<le> status_code r"
    and "map_of kv ''error_type'' = Some tag" and "truthy tag" and "hashable tag"
    and "tag \<notin> JStr ` dom exception_map"
  shows "classify r = Inl (Kite KiteException (body_message kv) (Some (status_code r)))
       \<and> (\<forall>m. map_of kv ''message'' = Some m \<longrightarrow> body_message kv = m)"
proof -
  from \<open>tag \<notin> JStr ` dom exception_map\<close> have "exception_class tag = KiteException"
    by (cases tag) (auto split: option.split)
  with classify_json_error [OF assms(1-7)] show ?thesis
    by (simp add: body_message_def)
qed

theorem unknown_tag_base_kind_witness:
  "classify unknown_tag_response = Inl (Kite KiteException (JStr ''boom'') (Some 400))"
proof -
  have t: "JStr ''FooException'' \<notin> JStr ` dom exception_map"
    by (simp add: image_iff dom_def exception_map_simps)
  have "classify unknown_tag_response =
      Inl (Kite KiteException
             (body_message [(''error_type'', JStr ''FooException''), (''message'', JStr ''boom'')])
             (Some (status_code unknown_tag_response)))"
    using unknown_tag_base_kind [of unknown_tag_response "''application/json''"
        "[(''error_type'', JStr ''FooException''), (''message'', JStr ''boom'')]"
        "JStr ''FooException''"] t
    by (simp add: unknown_tag_response_def)
  then show ?thesis
    by (simp add: body_message_def unknown_tag_response_def)
qed

text \<open>
  C4. For a JSON response with a dict body, a status of 400 or more and an \<open>error_type\<close>
  that is one of the seven tags, the classifier raises the kind of that tag, with the
  body's message and the status code.
\<close>

theorem known_tag_kind:
  assumes "content_type r = Some ct" and "contains ''application/json'' ct"
    and "json_result r = Some (JObj kv)" and "400 \<le> status_code r"
    and "map_of kv ''error_type'' = Some (JStr t)" and "exception_map t = Some k"
  shows "classify r = Inl (Kite k (body_message kv) (Some (status_code r)))
       \<and> (\<forall>m. map_of kv ''message'' = Some m \<longrightarrow> body_message kv = m)"
proof -
  from assms(6) have "truthy (JStr t)"
    by (simp add: exception_map_nonempty)
  with classify_json_error [OF assms(1-5)] assms(6) show ?thesis
    by (simp add: body_message_def)
qed

theorem known_tag_kind_witness:
  "classify token_error_response =
     Inl (Kite TokenException (JStr ''Access token is invalid or expired'') (Some 403))"
proof -
  have "classify token_error_response =
      Inl (Kite TokenException
             (body_message [(''error_type'', JStr ''TokenException''),
                            (''message'', JStr ''Access token is invalid or expired'')])
             (Some (status_code token_error_response)))"
    using known_tag_kind [of token_error_response "''application/json''"
        "[(''error_type'', JStr ''TokenException''),
          (''message'', JStr ''Access token is invalid or expired'')]"
        "''TokenException''" TokenException]
    by (simp add: token_error_response_def exception_map_simps)
  then show ?thesis
    by (simp add: body_message_def token_error_response_def)
qed

text \<open>
  C5. When the content type does not name JSON, the status code alone decides: below 400
  the text of the body is returned, whatever it is; from 400 on the base kind is raised
  with the status code and with the text inside its message.
\<close>

theorem non_json_by_status:
  assumes "\<not> contains ''application/json'' (case content_type r of None \<Rightarrow> [] | Some ct \<Rightarrow> ct)"
  shows "(status_code r < 400 \<longrightarrow> classify r = Inr (JStr (text_of r)))
       \<and> (400 \<le> status_code r \<longrightarrow>
            classify r = Inl (Kite KiteException
                                (JStr (''HTTP error: '' @ str_int (status_code r) @ '' - ''
                                        @ text_of r))
                                (Some (status_code r))))"
  using assms by (simp add: classify_def http_error_def)

theorem non_json_by_status_witness:
  "classify html_response =
     Inl (Kite KiteException (JStr ''HTTP error: 404 - Resource not found (HTML page)'')
            (Some 404))"
proof -
  have n: "\<not> contains ''application/json''
              (case content_type html_response of None \<Rightarrow> [] | Some ct \<Rightarrow> ct)"
    by (simp add: html_response_def)
  have s: "str_int 404 = ''404''"
    by (simp add: str_int_def str_nat.simps)
  from non_json_by_status [OF n] s show ?thesis
    by (simp add: html_response_def)
qed


section \<open>Session headers\<close>









text \<open>
  When \<open>set_access_token\<close> raises, the token has been assigned and the headers have not
  been recomputed.
\<close>

lemma set_access_token_raises:
  assumes "fst (KiteClient_set_access_token tok st) \<noteq> None"
  shows "session_headers (fst (snd (KiteClient_set_access_token tok st)))
           = session_headers (fst st)
       \<and> client_access_token (fst (snd (KiteClient_set_access_token tok st))) = tok"
  using assms
  by (simp add: KiteClient_set_access_token_def Let_def split: option.splits if_splits)










section \<open>Session generation\<close>

lemma generate_session_not_initialized:
  "\<not> kite_connect_client (fst st) \<Longrightarrow>
   generate_session kc etext request_token secret st =
     (Inl (Kite GeneralException (JStr not_initialized_message) None), st)"
  by (simp add: generate_session_def)

lemma generate_session_no_secret:
  "kite_connect_client (fst st) \<Longrightarrow> \<not> truthy_str secret
   \<Longrightarrow> \<not> truthy_str (client_api_secret (fst st)) \<Longrightarrow>
   generate_session kc etext request_token secret st =
     (Inl (Kite InputException (JStr secret_required_message) None), st)"
  by (simp add: generate_session_def Let_def)

lemma generate_session_raised:
  assumes "kite_connect_client (fst st)"
    and "truthy_str (if truthy_str secret then secret else client_api_secret (fst st))"
    and "kc request_token (the (if truthy_str secret then secret else client_api_secret (fst st)))
           = Raised e"
  shows "generate_session kc etext request_token secret st =
     (Inl (wrap_foreign e), fst st,
      (snd st)\<lparr>calls := calls (snd st) @
         [KcGenerateSession request_token
            (the (if truthy_str secret then secret else client_api_secret (fst st)))]\<rparr>)"
  using assms by (simp add: generate_session_def Let_def)

text \<open>
  C7 fails when the \<open>KiteConnect\<close> object could not be built: that is tested first, and the
  call raises \<open>GeneralException\<close> although no secret is there.
\<close>

theorem no_secret_counterexample:
  "generate_session kc_token_error no_text ''rt'' None (uninit_client, empty_world) =
     (Inl (Kite GeneralException (JStr not_initialized_message) None),
      uninit_client, empty_world)
   \<and> client_api_secret uninit_client = None"
  by (simp add: generate_session_def uninit_client_def no_secret_client_def ready_client_def)

text \<open>
  C7, amended. With the \<open>KiteConnect\<close> object built and the secret falsy both as an argument
  and in the client, \<open>generate_session\<close> raises \<open>InputException\<close>; without that object it
  raises \<open>GeneralException\<close>. In both cases the client and the world are left as they
  were, so no call has been recorded.
\<close>

theorem no_secret_input_error:
  "(kite_connect_client (fst st) \<and> \<not> truthy_str secret
      \<and> \<not> truthy_str (client_api_secret (fst st)) \<longrightarrow>
      generate_session kc etext request_token secret st =
        (Inl (Kite InputException (JStr secret_required_message) None), st))
   \<and> (\<not> kite_connect_client (fst st) \<longrightarrow>
      generate_session kc etext request_token secret st =
        (Inl (Kite GeneralException (JStr not_initialized_message) None), st))"
  by (simp add: generate_session_not_initialized generate_session_no_secret)

theorem no_secret_input_error_witness:
  "generate_session kc_token_error no_text ''rt'' None (no_secret_client, empty_world) =
     (Inl (Kite InputException (JStr secret_required_message) None),
      no_secret_client, empty_world)
   \<and> calls (snd (snd (generate_session kc_token_error no_text ''rt'' None (no_secret_client, empty_world))))
       = []"
  using no_secret_input_error [where st = "(no_secret_client, empty_world)" and secret = None
      and kc = kc_token_error and etext = no_text and request_token = "''rt''"]
  by (simp add: no_secret_client_def ready_client_def empty_world_def)

text \<open>
  C8 fails for an exception of the library whose class is named like one of the seven tags
  and which has a message and a code: it comes out as the wrapper's kind of that name, here
  \<open>TokenException\<close>, and not as \<open>GeneralException\<close>.
\<close>

theorem foreign_exception_counterexample:
  "fst (generate_session kc_token_error no_text ''rt'' None (ready_client, empty_world)) =
     Inl (Kite TokenException (JStr ''Invalid request token'') (Some 403))"
  by (simp add: generate_session_def Let_def ready_client_def kc_token_error_def
      library_token_exception_def wrap_foreign_def exception_map_simps dom_def)

text \<open>
  C8, amended. An exception of the library that is not one of the wrapper's own and has
  both a message and a code comes out as the wrapper's kind named like its class if that
  name is one of the seven tags, and as \<open>GeneralException\<close> otherwise, with the message
  (after a prefix naming the class, in the second case) and the code. One that has no
  code comes out as \<open>GeneralException\<close> with \<open>str(e)\<close> after a prefix and with no code.
  Exactly one call of the library has been recorded.
\<close>

theorem foreign_exception_wrapped:
  assumes "kite_connect_client (fst st)"
    and "truthy_str (if truthy_str secret then secret else client_api_secret (fst st))"
    and "kc request_token (the (if truthy_str secret then secret else client_api_secret (fst st)))
           = Raised e"
  shows "(\<forall>m c k. message_attr e = Some m \<and> code_attr e = Some c
             \<and> exception_map (type_name e) = Some k \<longrightarrow>
           fst (generate_session kc etext request_token secret st) = Inl (Kite k (JStr m) c))
       \<and> (\<forall>m c. message_attr e = Some m \<and> code_attr e = Some c
             \<and> exception_map (type_name e) = None \<longrightarrow>
           fst (generate_session kc etext request_token secret st) =
             Inl (Kite GeneralException
                    (JStr (''Underlying library error ('' @ type_name e @ ''): '' @ m)) c))
       \<and> (code_attr e = None \<longrightarrow>
           fst (generate_session kc etext request_token secret st) =
             Inl (Kite GeneralException (JStr (underlying_message @ str_of e)) None))
       \<and> snd (generate_session kc etext request_token secret st) =
           (fst st, (snd st)\<lparr>calls := calls (snd st) @
              [KcGenerateSession request_token
                 (the (if truthy_str secret then secret else client_api_secret (fst st)))]\<rparr>)"
proof -
  note r = generate_session_raised [where st = st and secret = secret and kc = kc
      and etext = etext and request_token = request_token and e = e, OF assms]
  show ?thesis
    by (auto simp add: r wrap_foreign_def dom_def)
qed

theorem foreign_exception_wrapped_witness:
  "fst (generate_session kc_token_error no_text ''rt'' None (ready_client, empty_world)) =
     Inl (Kite TokenException (JStr ''Invalid request token'') (Some 403))
   \<and> calls (snd (snd (generate_session kc_token_error no_text ''rt'' None (ready_client, empty_world))))
       = [KcGenerateSession ''rt'' ''s'']"
proof -
  have a: "kite_connect_client (fst (ready_client, empty_world))"
    by (simp add: ready_client_def)
  have b: "truthy_str (if truthy_str None then None
                       else client_api_secret (fst (ready_client, empty_world)))"
    by (simp add: ready_client_def)
  have c: "kc_token_error ''rt''
             (the (if truthy_str None then None
                   else client_api_secret (fst (ready_client, empty_world))))
           = Raised library_token_exception"
    by (simp add: kc_token_error_def)
  note t = foreign_exception_wrapped [where st = "(ready_client, empty_world)"
      and secret = None and kc = kc_token_error and etext = no_text
      and request_token = "''rt''" and e = library_token_exception, OF a b c]
  from t [THEN conjunct1] have
    "fst (generate_session kc_token_error no_text ''rt'' None (ready_client, empty_world)) =
       Inl (Kite TokenException (JStr ''Invalid request token'') (Some 403))"
    by (simp add: library_token_exception_def exception_map_simps)
  moreover from t [THEN conjunct2, THEN conjunct2, THEN conjunct2] have
    "calls (snd (snd (generate_session kc_token_error no_text ''rt'' None (ready_client, empty_world))))
       = [KcGenerateSession ''rt'' ''s'']"
    by (simp add: ready_client_def empty_world_def)
  ultimately show ?thesis by simp
qed

section \<open>Quotes\<close>

text \<open>
  C10. Without instruments \<open>get_quote\<close> raises \<open>InputException\<close> and leaves the client and
  the world as they were; with instruments it makes exactly one request, a \<open>GET\<close> of
  \<open>/quote\<close> whose parameter \<open>i\<close> is the list of the instruments in their order, whatever the
  transport answers.
\<close>

theorem get_quote_instruments:
  "get_quote tr [] st =
     (Inl (Kite InputException
             (JStr ''At least one instrument must be provided for a quote.'') None), st)
   \<and> (instruments \<noteq> [] \<longrightarrow>
        calls (snd (snd (get_quote tr instruments st))) =
          calls (snd st) @
            [Http \<lparr>call_method = ''GET'', call_uri = ''https://api.kite.trade/quote'',
                   call_params = Some [(''i'', JArr (map JStr instruments))],
                   call_data = None, call_json = None,
                   call_headers = session_headers (update_headers (fst st))\<rparr>])"
  by (simp add: get_quote_def request_def Let_def urljoin_def root_url_def
      split: transport_outcome.split)

theorem get_quote_instruments_witness:
  "calls (snd (snd (get_quote html_transport [''NSE:INFY'', ''BSE:RELIANCE'']
                      (ready_client, empty_world)))) =
     [Http \<lparr>call_method = ''GET'', call_uri = ''https://api.kite.trade/quote'',
            call_params = Some [(''i'', JArr [JStr ''NSE:INFY'', JStr ''BSE:RELIANCE''])],
            call_data = None, call_json = None,
            call_headers = session_headers (update_headers ready_client)\<rparr>]"
  using get_quote_instruments [of html_transport "(ready_client, empty_world)"
      "[''NSE:INFY'', ''BSE:RELIANCE'']"]
  by (simp add: empty_world_def)


end
